theory Spec2Isabelle
  imports Main
begin

section \<open>The outside world\<close>

text \<open>
  The two scripts are straight-line programs around four library calls: reading a JSON
  file, \<^verbatim>\<open>requests.post\<close>, \<^verbatim>\<open>create_client\<close> and the query builder's
  \<^verbatim>\<open>execute()\<close>. Each of them either returns a value or raises, so each is modelled
  as a function of the world into a sum type, \<open>Inl\<close> holding the exception raised.
  The exceptions are the classes these calls raise, all of them subclasses of Python's
  \<^verbatim>\<open>Exception\<close> and so caught by \<^verbatim>\<open>except Exception\<close>; a \<^verbatim>\<open>KeyboardInterrupt\<close>
  is an asynchronous signal and not part of the model.
\<close>

datatype exn =
    OSError string          \<comment> \<open>\<^verbatim>\<open>open\<close> fails: the file is absent or unreadable\<close>
  | JSONDecodeError string  \<comment> \<open>\<^verbatim>\<open>json.load\<close> fails: the file is not JSON\<close>
  | KeyError string         \<comment> \<open>\<^verbatim>\<open>d[k]\<close> on a dictionary without the key \<open>k\<close>\<close>
  | TypeError               \<comment> \<open>\<^verbatim>\<open>d[k]\<close> with a string \<open>k\<close> on a value that is not a dictionary\<close>
  | Exception string        \<comment> \<open>any other exception, with its message\<close>

type_synonym json_object = "string \<rightharpoonup> string"

text \<open>
  What \<^verbatim>\<open>json.load\<close> returns: a dictionary for a JSON object, and for any other JSON
  document (an array, a string, a number, a boolean, null) a value that a string does
  not subscript.
\<close>

datatype json = JObject json_object | JOther

record http_response =
  status_code :: int
  resp_text :: string       \<comment> \<open>\<^verbatim>\<open>resp.text\<close>\<close>

record client =
  supabase_url :: string
  supabase_key :: string

record select_request =
  req_client :: client
  req_table :: string
  req_columns :: string
  req_count :: "string option"
  req_limit :: "nat option"

type_synonym row = "(string \<times> string) list"

record api_response =
  data :: "row list"
  count :: "int option"

record world =
  files :: "string \<Rightarrow> exn + json"
    \<comment> \<open>\<^verbatim>\<open>json.load(open(name))\<close>\<close>
  post_reply :: "string \<Rightarrow> (string \<times> string) list \<Rightarrow> (string \<times> string) list \<Rightarrow> exn + http_response"
    \<comment> \<open>\<^verbatim>\<open>requests.post(url, headers=..., json=...)\<close>\<close>
  client_error :: "string \<Rightarrow> string \<Rightarrow> exn option"
    \<comment> \<open>the exception \<^verbatim>\<open>create_client(url, key)\<close> raises, if it raises\<close>
  execute_reply :: "nat \<Rightarrow> select_request \<Rightarrow> exn + api_response"
    \<comment> \<open>\<^verbatim>\<open>execute()\<close> of a query, when \<open>n\<close> queries were executed before it in this run\<close>

section \<open>Console output and the trace of a run\<close>

text \<open>
  The printed lines carry emoji, so a line is a constructor with the values the source
  formats into it, not the text itself.
\<close>

datatype line =
    Rule                 \<comment> \<open>\<^verbatim>\<open>"=" * 60\<close>\<close>
  | Title                \<comment> \<open>\<^verbatim>\<open>Creating Question Cache Table\<close>\<close>
  | Creating             \<comment> \<open>\<^verbatim>\<open>Creating question_cache table and indexes...\<close>\<close>
  | CreatedSuccessfully  \<comment> \<open>\<^verbatim>\<open>question_cache table created successfully!\<close>\<close>
  | CreationFailed int   \<comment> \<open>\<^verbatim>\<open>Table creation failed: {resp.status_code}\<close>\<close>
  | Text string          \<comment> \<open>a string printed as it is\<close>
  | Verifying            \<comment> \<open>\<^verbatim>\<open>Verifying table creation...\<close>\<close>
  | TableVerified int    \<comment> \<open>\<^verbatim>\<open>Table verified! Current cached questions: {result.count or 0}\<close>\<close>
  | Waiting nat          \<comment> \<open>\<^verbatim>\<open>Waiting for schema cache to refresh... ({attempt + 1}/5)\<close>\<close>
  | NotRefreshed exn     \<comment> \<open>\<^verbatim>\<open>Table created but PostgREST cache hasn't refreshed yet: {e}\<close>\<close>
  | ReadyShortly         \<comment> \<open>\<^verbatim>\<open>It should be ready shortly.\<close>\<close>
  | BlankThenRule        \<comment> \<open>\<^verbatim>\<open>"\n" + "=" * 60\<close>\<close>
  | TableReady           \<comment> \<open>\<^verbatim>\<open>Question cache table ready!\<close>\<close>
  | NextSteps            \<comment> \<open>\<^verbatim>\<open>\nNext steps:\<close>\<close>
  | Step nat             \<comment> \<open>the three numbered next steps\<close>
  | PageViews nat        \<comment> \<open>\<^verbatim>\<open>page_views: {len(result.data)} rows\<close>\<close>
  | SentenceEmbeddings nat
                         \<comment> \<open>\<^verbatim>\<open>sentence_embeddings: {len(result.data)} rows (expected: 0)\<close>\<close>

datatype event =
    Post string "(string \<times> string) list" "(string \<times> string) list"
                         \<comment> \<open>url, headers, JSON body\<close>
  | CreateClient string string
  | Execute select_request
  | Sleep nat
  | Print line

datatype outcome = Exit nat | Uncaught exn

fun exit_code :: "outcome \<Rightarrow> nat" where
  "exit_code (Exit n) = n"
| "exit_code (Uncaught e) = 1"

section \<open>Library calls\<close>

definition getitem :: "json \<Rightarrow> string \<Rightarrow> exn + string" where
  \<comment> \<open>\<^verbatim>\<open>d[k]\<close>\<close>
  "getitem d k =
     (case d of
        JOther \<Rightarrow> Inl TypeError
      | JObject m \<Rightarrow> (case m k of None \<Rightarrow> Inl (KeyError k) | Some v \<Rightarrow> Inr v))"

definition create_client :: "world \<Rightarrow> string \<Rightarrow> string \<Rightarrow> exn + client" where
  "create_client w url key =
     (case client_error w url key of
        Some e \<Rightarrow> Inl e
      | None \<Rightarrow> Inr \<lparr>supabase_url = url, supabase_key = key\<rparr>)"

definition table :: "client \<Rightarrow> string \<Rightarrow> select_request" where
  "table c name =
     \<lparr>req_client = c, req_table = name, req_columns = ''*'', req_count = None, req_limit = None\<rparr>"

definition select :: "select_request \<Rightarrow> string \<Rightarrow> string option \<Rightarrow> select_request" where
  "select q cols cnt = q\<lparr>req_columns := cols, req_count := cnt\<rparr>"

definition limit :: "select_request \<Rightarrow> nat \<Rightarrow> select_request" where
  "limit q n = q\<lparr>req_limit := Some n\<rparr>"

definition range_py :: "nat \<Rightarrow> nat list" where
  \<comment> \<open>\<^verbatim>\<open>range(n)\<close>\<close>
  "range_py n = [0..<n]"

definition or_0 :: "int option \<Rightarrow> int" where
  \<comment> \<open>\<^verbatim>\<open>x or 0\<close>: \<^verbatim>\<open>None\<close> and \<^verbatim>\<open>0\<close> are falsy\<close>
  "or_0 x = (case x of None \<Rightarrow> 0 | Some n \<Rightarrow> if n = 0 then 0 else n)"

definition truthy :: "bool option \<Rightarrow> bool" where
  \<comment> \<open>the truth value of a Python \<^verbatim>\<open>True\<close>, \<^verbatim>\<open>False\<close> or \<^verbatim>\<open>None\<close>\<close>
  "truthy r = (case r of None \<Rightarrow> False | Some b \<Rightarrow> b)"

section \<open>06\_add\_question\_cache.py\<close>

record config =
  SUPABASE_URL :: string
  SUPABASE_SERVICE_KEY :: string
  SUPABASE_ACCESS_TOKEN :: string
  SUPABASE_PROJECT_REF :: string

definition load_config :: "world \<Rightarrow> exn + config" where
  "load_config w =
     (case files w ''config.public.json'' of Inl e \<Rightarrow> Inl e | Inr public_config \<Rightarrow>
     (case files w ''config.secret.json'' of Inl e \<Rightarrow> Inl e | Inr secrets \<Rightarrow>
     (case getitem public_config ''SUPABASE_URL'' of Inl e \<Rightarrow> Inl e | Inr service_url \<Rightarrow>
     (case getitem secrets ''SUPABASE_SERVICE_KEY'' of Inl e \<Rightarrow> Inl e | Inr service_key \<Rightarrow>
     (case getitem secrets ''SUPABASE_ACCESS_TOKEN'' of Inl e \<Rightarrow> Inl e | Inr access_token \<Rightarrow>
     (case getitem secrets ''SUPABASE_PROJECT_REF'' of Inl e \<Rightarrow> Inl e | Inr project_ref \<Rightarrow>
        Inr \<lparr>SUPABASE_URL = service_url, SUPABASE_SERVICE_KEY = service_key,
             SUPABASE_ACCESS_TOKEN = access_token, SUPABASE_PROJECT_REF = project_ref\<rparr>))))))"

definition newline :: char where
  "newline = CHR 0x0A"

definition schema_sql :: string where
  \<open>schema_sql = newline # concat (map (\<lambda>l. l @ [newline])
    [''-- Create question_cache table'',
     ''CREATE TABLE IF NOT EXISTS question_cache ('',
     ''    id UUID PRIMARY KEY DEFAULT gen_random_uuid(),'',
     ''    user_id UUID REFERENCES auth.users(id) ON DELETE CASCADE,'',
     ''    question TEXT NOT NULL,'',
     ''    question_embedding VECTOR(1536),'',
     ''    ai_answer TEXT,'',
     ''    context_talk_ids UUID[],  -- Array of talk IDs used to generate answer'',
     ''    created_at TIMESTAMPTZ DEFAULT NOW(),'',
     ''    updated_at TIMESTAMPTZ DEFAULT NOW()'',
     '');'',
     [],
     ''-- Index for exact question lookup (fastest)'',
     ''CREATE INDEX IF NOT EXISTS idx_question_cache_question '',
     ''ON question_cache(question);'',
     [],
     ''-- Index for embedding similarity search (find similar questions)'',
     ''CREATE INDEX IF NOT EXISTS idx_question_cache_embedding '',
     ''ON question_cache USING ivfflat (question_embedding vector_cosine_ops)'',
     ''WITH (lists = 100);'',
     [],
     ''-- Index for user queries'',
     ''CREATE INDEX IF NOT EXISTS idx_question_cache_user_id '',
     ''ON question_cache(user_id);'',
     [],
     ''-- Index for created_at (to find recent queries)'',
     ''CREATE INDEX IF NOT EXISTS idx_question_cache_created_at '',
     ''ON question_cache(created_at DESC);'',
     [],
     ''-- Enable Row Level Security'',
     ''ALTER TABLE question_cache ENABLE ROW LEVEL SECURITY;'',
     [],
     ''-- RLS: Users can read their own cached questions'',
     ''DROP POLICY IF EXISTS "Users can read own questions" ON question_cache;'',
     ''CREATE POLICY "Users can read own questions"'',
     ''ON question_cache FOR SELECT'',
     ''TO authenticated'',
     ''USING (auth.uid() = user_id);'',
     [],
     ''-- RLS: Users can insert their own questions'',
     ''DROP POLICY IF EXISTS "Users can insert own questions" ON question_cache;'',
     ''CREATE POLICY "Users can insert own questions"'',
     ''ON question_cache FOR INSERT'',
     ''TO authenticated'',
     ''WITH CHECK (auth.uid() = user_id);'',
     [],
     ''-- RLS: Users can update their own questions'',
     ''DROP POLICY IF EXISTS "Users can update own questions" ON question_cache;'',
     ''CREATE POLICY "Users can update own questions"'',
     ''ON question_cache FOR UPDATE'',
     ''TO authenticated'',
     ''USING (auth.uid() = user_id)'',
     ''WITH CHECK (auth.uid() = user_id);'',
     [],
     ''-- Create function to find similar cached questions'',
     ''CREATE OR REPLACE FUNCTION find_similar_questions('',
     ''    query_embedding VECTOR(1536),'',
     ''    similarity_threshold FLOAT DEFAULT 0.95,'',
     ''    max_results INT DEFAULT 5'',
     '')'',
     ''RETURNS TABLE ('',
     ''    id UUID,'',
     ''    question TEXT,'',
     ''    question_embedding VECTOR(1536),'',
     ''    ai_answer TEXT,'',
     ''    similarity FLOAT,'',
     ''    created_at TIMESTAMPTZ'',
     '')'',
     ''LANGUAGE sql STABLE'',
     ''AS $$'',
     ''    SELECT'',
     ''        question_cache.id,'',
     ''        question_cache.question,'',
     ''        question_cache.question_embedding,'',
     ''        question_cache.ai_answer,'',
     ''        1 - (question_cache.question_embedding <=> query_embedding) AS similarity,'',
     ''        question_cache.created_at'',
     ''    FROM question_cache'',
     ''    WHERE question_cache.question_embedding IS NOT NULL'',
     ''        AND question_cache.ai_answer IS NOT NULL'',
     ''        AND (1 - (question_cache.question_embedding <=> query_embedding)) >= similarity_threshold'',
     ''    ORDER BY question_cache.question_embedding <=> query_embedding'',
     ''    LIMIT max_results;'',
     ''$$;''])\<close>

text \<open>
  The retry loop \<^verbatim>\<open>for attempt in range(5)\<close>, as a recursion over the attempts left.
  It returns the events of the loop and the value the function returns from inside
  it; \<open>None\<close> is Python's \<^verbatim>\<open>None\<close>, returned when the loop ends without a
  \<^verbatim>\<open>return\<close>. Every iteration executes one query, and \<^verbatim>\<open>range\<close> starts at 0, so
  \<open>attempt\<close> is also the number of queries executed before this one.
\<close>

fun verify_loop :: "world \<Rightarrow> client \<Rightarrow> nat list \<Rightarrow> event list \<times> bool option" where
  "verify_loop w c [] = ([], None)"
| "verify_loop w c (attempt # rest) =
     (let q = limit (select (table c ''question_cache'') ''id'' (Some ''exact'')) 1 in
      case execute_reply w attempt q of
        Inr result \<Rightarrow> ([Execute q, Print (TableVerified (or_0 (count result)))], Some True)
      | Inl e \<Rightarrow>
          if attempt < 4 then
            (case verify_loop w c rest of
               (evs, r) \<Rightarrow> (Execute q # Print (Waiting (attempt + 1)) # Sleep 3 # evs, r))
          else ([Execute q, Print (NotRefreshed e), Print ReadyShortly], Some True))"

definition url :: "config \<Rightarrow> string" where
  "url cfg = ''https://api.supabase.com/v1/projects/'' @ SUPABASE_PROJECT_REF cfg
               @ ''/database/query''"

definition headers :: "config \<Rightarrow> (string \<times> string) list" where
  "headers cfg = [(''Authorization'', ''Bearer '' @ SUPABASE_ACCESS_TOKEN cfg),
                  (''Content-Type'', ''application/json'')]"

definition create_question_cache_table :: "config \<Rightarrow> world \<Rightarrow> event list \<times> (exn + bool option)" where
  "create_question_cache_table cfg w =
     (let submitted = [Print Rule, Print Title, Print Rule, Print Creating,
                       Post (url cfg) (headers cfg) [(''query'', schema_sql)]]
      in case post_reply w (url cfg) (headers cfg) [(''query'', schema_sql)] of
           Inl e \<Rightarrow> (submitted, Inl e)
         | Inr resp \<Rightarrow>
             if status_code resp = 200 \<or> status_code resp = 201 then
               (let accepted = submitted @ [Print CreatedSuccessfully, Print Verifying,
                      CreateClient (SUPABASE_URL cfg) (SUPABASE_SERVICE_KEY cfg)]
                in case create_client w (SUPABASE_URL cfg) (SUPABASE_SERVICE_KEY cfg) of
                     Inl e \<Rightarrow> (accepted, Inl e)
                   | Inr c \<Rightarrow>
                       (case verify_loop w c (range_py 5) of (evs, r) \<Rightarrow> (accepted @ evs, Inr r)))
             else
               (submitted @ [Print (CreationFailed (status_code resp)),
                             Print (Text (take 500 (resp_text resp)))],
                Inr (Some False)))"

text \<open>
  The whole script: the module-level configuration load, then the \<^verbatim>\<open>__main__\<close> block.
  An exception nobody catches ends the process with a traceback and exit code 1.
\<close>

definition main :: "world \<Rightarrow> event list \<times> outcome" where
  "main w =
     (case load_config w of
        Inl e \<Rightarrow> ([], Uncaught e)
      | Inr cfg \<Rightarrow>
          (case create_question_cache_table cfg w of
             (evs, Inl e) \<Rightarrow> (evs, Uncaught e)
           | (evs, Inr r) \<Rightarrow>
               if \<not> truthy r then (evs, Exit 1)
               else (evs @ [Print BlankThenRule, Print TableReady, Print Rule, Print NextSteps,
                            Print (Step 1), Print (Step 2), Print (Step 3)],
                     Exit 0)))"

section \<open>query\_tables.py\<close>

definition query_tables :: "world \<Rightarrow> event list \<times> outcome" where
  "query_tables w =
     (case files w ''config.public.json'' of Inl e \<Rightarrow> ([], Uncaught e) | Inr public \<Rightarrow>
     (case getitem public ''SUPABASE_URL'' of Inl e \<Rightarrow> ([], Uncaught e) | Inr service_url \<Rightarrow>
     (case getitem public ''SUPABASE_ANON_KEY'' of Inl e \<Rightarrow> ([], Uncaught e) | Inr anon_key \<Rightarrow>
     (case create_client w service_url anon_key of
        Inl e \<Rightarrow> ([CreateClient service_url anon_key], Uncaught e)
      | Inr c \<Rightarrow>
     (let q1 = limit (select (table c ''page_views'') ''*'' None) 5;
          q2 = limit (select (table c ''sentence_embeddings'') ''*'' None) 5
      in
     (case execute_reply w 0 q1 of
        Inl e \<Rightarrow> ([CreateClient service_url anon_key, Execute q1], Uncaught e)
      | Inr result \<Rightarrow>
     (case execute_reply w 1 q2 of
        Inl e \<Rightarrow>
          ([CreateClient service_url anon_key, Execute q1,
            Print (PageViews (length (data result))), Execute q2], Uncaught e)
      | Inr result' \<Rightarrow>
          ([CreateClient service_url anon_key, Execute q1,
            Print (PageViews (length (data result))), Execute q2,
            Print (SentenceEmbeddings (length (data result')))], Exit 0))))))))"

section \<open>Reading a trace\<close>

fun posts :: "event list \<Rightarrow> nat" where
  "posts [] = 0"
| "posts (Post u hs b # evs) = Suc (posts evs)"
| "posts (ev # evs) = posts evs"

fun queries :: "event list \<Rightarrow> select_request list" where
  "queries [] = []"
| "queries (Execute q # evs) = q # queries evs"
| "queries (ev # evs) = queries evs"

fun sleeps :: "event list \<Rightarrow> nat list" where
  "sleeps [] = []"
| "sleeps (Sleep n # evs) = n # sleeps evs"
| "sleeps (ev # evs) = sleeps evs"

definition network_calls :: "event list \<Rightarrow> nat" where
  "network_calls evs = posts evs + length (queries evs)"

section \<open>The verification loop in closed form\<close>

text \<open>
  The query the source builds with \<^verbatim>\<open>table('question_cache').select('id', count='exact').limit(1)\<close>,
  and the client it builds from the service URL and the service key.
\<close>

definition verification_query :: "client \<Rightarrow> select_request" where
  "verification_query c =
     \<lparr>req_client = c, req_table = ''question_cache'', req_columns = ''id'',
      req_count = Some ''exact'', req_limit = Some 1\<rparr>"

definition service_client :: "config \<Rightarrow> client" where
  "service_client cfg =
     \<lparr>supabase_url = SUPABASE_URL cfg, supabase_key = SUPABASE_SERVICE_KEY cfg\<rparr>"

text \<open>
  What a failed attempt before the last leaves in the trace, what the attempt that ends
  the loop leaves, and how many attempts fail before the loop ends: the failures among
  the attempts 0 to 3 that come before the first success.
\<close>

definition retry :: "select_request \<Rightarrow> nat \<Rightarrow> event list" where
  "retry q attempt = [Execute q, Print (Waiting (attempt + 1)), Sleep 3]"

definition final_attempt :: "world \<Rightarrow> select_request \<Rightarrow> nat \<Rightarrow> event list" where
  "final_attempt w q attempt =
     (case execute_reply w attempt q of
        Inr result \<Rightarrow> [Execute q, Print (TableVerified (or_0 (count result)))]
      | Inl e \<Rightarrow> [Execute q, Print (NotRefreshed e), Print ReadyShortly])"

definition failed_attempts :: "world \<Rightarrow> select_request \<Rightarrow> nat" where
  "failed_attempts w q =
     length (takeWhile (\<lambda>attempt. isl (execute_reply w attempt q)) [0..<4])"

text \<open>
  The events of the function up to the request, the events up to the creation of the
  client when the request is accepted, the lines the \<^verbatim>\<open>__main__\<close> block prints at the
  end, and the events of the whole retry loop.
\<close>

definition submitted :: "config \<Rightarrow> event list" where
  "submitted cfg =
     [Print Rule, Print Title, Print Rule, Print Creating,
      Post (url cfg) (headers cfg) [(''query'', schema_sql)]]"

definition accepted :: "config \<Rightarrow> event list" where
  "accepted cfg =
     submitted cfg @ [Print CreatedSuccessfully, Print Verifying,
                      CreateClient (SUPABASE_URL cfg) (SUPABASE_SERVICE_KEY cfg)]"

definition next_steps :: "event list" where
  "next_steps =
     [Print BlankThenRule, Print TableReady, Print Rule, Print NextSteps,
      Print (Step 1), Print (Step 2), Print (Step 3)]"

definition verification :: "world \<Rightarrow> client \<Rightarrow> event list" where
  "verification w c =
     concat (map (retry (verification_query c)) [0..<failed_attempts w (verification_query c)])
       @ final_attempt w (verification_query c) (failed_attempts w (verification_query c))"

section \<open>Stub worlds\<close>

text \<open>
  A world with both configuration files in place, an endpoint that answers every request
  with the given status, a client constructor that never raises and a query layer whose
  answer to the \<open>n\<close>-th query is given.
\<close>

definition stub_public :: json where
  "stub_public =
     JObject [''SUPABASE_URL'' \<mapsto> ''https://stub.supabase.co'', ''SUPABASE_ANON_KEY'' \<mapsto> ''anon'']"

definition stub_secrets :: json where
  "stub_secrets =
     JObject [''SUPABASE_SERVICE_KEY'' \<mapsto> ''service'', ''SUPABASE_ACCESS_TOKEN'' \<mapsto> ''token'',
              ''SUPABASE_PROJECT_REF'' \<mapsto> ''ref'']"

definition stub_files :: "json \<Rightarrow> string \<Rightarrow> exn + json" where
  "stub_files public name =
     (if name = ''config.public.json'' then Inr public
      else if name = ''config.secret.json'' then Inr stub_secrets
      else Inl (OSError name))"

definition stub_config :: config where
  "stub_config =
     \<lparr>SUPABASE_URL = ''https://stub.supabase.co'', SUPABASE_SERVICE_KEY = ''service'',
      SUPABASE_ACCESS_TOKEN = ''token'', SUPABASE_PROJECT_REF = ''ref''\<rparr>"

definition stub_response :: "int \<Rightarrow> http_response" where
  "stub_response status = \<lparr>status_code = status, resp_text = ''reply''\<rparr>"

definition stub_world :: "json \<Rightarrow> int \<Rightarrow> (nat \<Rightarrow> select_request \<Rightarrow> exn + api_response) \<Rightarrow> world" where
  "stub_world public status reads =
     \<lparr>files = stub_files public,
      post_reply = (\<lambda>u hs b. Inr (stub_response status)),
      client_error = (\<lambda>u k. None),
      execute_reply = reads\<rparr>"

definition no_rows :: api_response where
  "no_rows = \<lparr>data = [], count = None\<rparr>"

definition fails_until :: "nat \<Rightarrow> nat \<Rightarrow> select_request \<Rightarrow> exn + api_response" where
  \<comment> \<open>a query layer that raises on the first \<open>k\<close> queries and answers from then on\<close>
  "fails_until k n q = (if n < k then Inl (Exception ''PGRST205'') else Inr no_rows)"

definition public_without_anon_key :: json where
  "public_without_anon_key = JObject [''SUPABASE_URL'' \<mapsto> ''https://stub.supabase.co'']"

definition seven_counted :: api_response where
  "seven_counted = \<lparr>data = [[(''id'', ''1'')]], count = Some 7\<rparr>"

definition fails_then :: "nat \<Rightarrow> api_response \<Rightarrow> nat \<Rightarrow> select_request \<Rightarrow> exn + api_response" where
  \<comment> \<open>a query layer that raises on the first \<open>k\<close> queries and then answers with \<open>r\<close>\<close>
  "fails_then k r n q = (if n < k then Inl (Exception ''PGRST205'') else Inr r)"

definition five_rows :: api_response where
  "five_rows = \<lparr>data = replicate 5 [(''path'', ''/'')], count = None\<rparr>"

definition smoke_reads :: "nat \<Rightarrow> select_request \<Rightarrow> exn + api_response" where
  \<comment> \<open>a query layer with five visible rows in \<open>page_views\<close> and none anywhere else\<close>
  "smoke_reads n q = (if req_table q = ''page_views'' then Inr five_rows else Inr no_rows)"

definition counted :: "int \<Rightarrow> nat \<Rightarrow> select_request \<Rightarrow> exn + api_response" where
  \<comment> \<open>a query layer that answers every query with the given count\<close>
  "counted n k q = Inr \<lparr>data = [], count = Some n\<rparr>"

section \<open>Notions of the specification\<close>

text \<open>
  A loaded file lacks a field when it is a dictionary without that key, or no dictionary
  at all.
\<close>

definition lacks :: "json \<Rightarrow> string \<Rightarrow> bool" where
  "lacks d k = (case d of JObject m \<Rightarrow> m k = None | JOther \<Rightarrow> True)"

text \<open>
  The incomplete configurations as the specification lists them: a file that cannot be
  loaded, or a file without the service URL, a credential (anonymous key, service key,
  access token) or the project identifier.
\<close>

definition spec_config_incomplete :: "world \<Rightarrow> bool" where
  "spec_config_incomplete w =
     (case files w ''config.public.json'' of Inl e \<Rightarrow> True | Inr public_config \<Rightarrow>
     (case files w ''config.secret.json'' of Inl e \<Rightarrow> True | Inr secrets \<Rightarrow>
        lacks public_config ''SUPABASE_URL'' \<or> lacks public_config ''SUPABASE_ANON_KEY''
        \<or> lacks secrets ''SUPABASE_SERVICE_KEY'' \<or> lacks secrets ''SUPABASE_ACCESS_TOKEN''
        \<or> lacks secrets ''SUPABASE_PROJECT_REF''))"

text \<open>The same without the anonymous key, which the migration script never reads.\<close>

definition config_incomplete :: "world \<Rightarrow> bool" where
  "config_incomplete w =
     (case files w ''config.public.json'' of Inl e \<Rightarrow> True | Inr public_config \<Rightarrow>
     (case files w ''config.secret.json'' of Inl e \<Rightarrow> True | Inr secrets \<Rightarrow>
        lacks public_config ''SUPABASE_URL''
        \<or> lacks secrets ''SUPABASE_SERVICE_KEY'' \<or> lacks secrets ''SUPABASE_ACCESS_TOKEN''
        \<or> lacks secrets ''SUPABASE_PROJECT_REF''))"

text \<open>
  The exception \<^verbatim>\<open>d[k]\<close> raises on a loaded file \<open>d\<close> that lacks the field \<open>k\<close>: a
  \<open>KeyError\<close> that names the field when the file is a dictionary, a \<open>TypeError\<close>
  when it is not.
\<close>

definition missing_field_error :: "json \<Rightarrow> string \<Rightarrow> exn" where
  "missing_field_error d k = (case d of JObject m \<Rightarrow> KeyError k | JOther \<Rightarrow> TypeError)"

text \<open>
  The read of the smoke-query script on a table: every column, no count, at most five
  rows. The lines a trace prints.
\<close>

definition bounded_read :: "client \<Rightarrow> string \<Rightarrow> select_request" where
  "bounded_read c name =
     \<lparr>req_client = c, req_table = name, req_columns = ''*'', req_count = None,
      req_limit = Some 5\<rparr>"

fun printed :: "event list \<Rightarrow> line list" where
  "printed [] = []"
| "printed (Print l # evs) = l # printed evs"
| "printed (ev # evs) = printed evs"

section \<open>Lemmas\<close>

lemma range_py_5: "range_py 5 = [0, 1, 2, 3, 4]"
  by (simp add: range_py_def upt_rec)

lemma upt_0_4: "[0..<4] = [0, 1, 2, 3::nat]"
  by (simp add: upt_rec)

lemma built_query:
  "limit (select (table c ''question_cache'') ''id'' (Some ''exact'')) 1 = verification_query c"
  by (simp add: limit_def select_def table_def verification_query_def)

lemma verify_loop_step:
  "verify_loop w c (attempt # rest) =
     (case execute_reply w attempt (verification_query c) of
        Inr result \<Rightarrow>
          ([Execute (verification_query c), Print (TableVerified (or_0 (count result)))],
           Some True)
      | Inl e \<Rightarrow>
          if attempt < 4 then
            (case verify_loop w c rest of
               (evs, r) \<Rightarrow> (retry (verification_query c) attempt @ evs, r))
          else ([Execute (verification_query c), Print (NotRefreshed e), Print ReadyShortly],
                Some True))"
  unfolding verify_loop.simps Let_def built_query retry_def
  by (simp split: sum.splits prod.splits)

declare verify_loop.simps(2) [simp del]

lemma verify_loop_closed:
  "verify_loop w c (range_py 5) =
     (concat (map (retry (verification_query c)) [0..<failed_attempts w (verification_query c)])
        @ final_attempt w (verification_query c) (failed_attempts w (verification_query c)),
      Some True)"
  unfolding range_py_5 failed_attempts_def upt_0_4 final_attempt_def
  by (simp add: verify_loop_step eval_nat_numeral split: sum.splits)

lemma posts_append: "posts (xs @ ys) = posts xs + posts ys"
  by (induction xs rule: posts.induct) simp_all

lemma queries_append: "queries (xs @ ys) = queries xs @ queries ys"
  by (induction xs rule: queries.induct) simp_all

lemma sleeps_append: "sleeps (xs @ ys) = sleeps xs @ sleeps ys"
  by (induction xs rule: sleeps.induct) simp_all

lemma failed_attempts_le: "failed_attempts w q \<le> 4"
proof -
  have "failed_attempts w q \<le> length [0..<(4::nat)]"
    unfolding failed_attempts_def by (rule length_takeWhile_le)
  then show ?thesis by simp
qed

lemma failed_attempts_fail:
  assumes "k < failed_attempts w q"
  shows "isl (execute_reply w k q)"
proof -
  let ?P = "\<lambda>attempt. isl (execute_reply w attempt q)"
  let ?ts = "takeWhile ?P [0..<4]"
  have k: "k < length ?ts"
    using assms by (simp only: failed_attempts_def)
  then have "?ts ! k \<in> set ?ts"
    by (rule nth_mem)
  then have P: "?P (?ts ! k)"
    by (rule set_takeWhileD[THEN conjunct2])
  have "?ts ! k = [0..<4] ! k"
    using k by (rule takeWhile_nth)
  moreover have "k < 4"
    using k length_takeWhile_le[of ?P "[0..<4]"] by simp
  ultimately have "?ts ! k = k"
    by simp
  with P show ?thesis
    by simp
qed

lemma retries_posts: "posts (concat (map (retry q) ks)) = 0"
  by (induction ks) (simp_all add: retry_def posts_append)

lemma retries_queries: "queries (concat (map (retry q) ks)) = replicate (length ks) q"
  by (induction ks) (simp_all add: retry_def queries_append)

lemma retries_sleeps: "sleeps (concat (map (retry q) ks)) = replicate (length ks) 3"
  by (induction ks) (simp_all add: retry_def sleeps_append)

lemma final_attempt_posts: "posts (final_attempt w q k) = 0"
  by (simp add: final_attempt_def split: sum.splits)

lemma final_attempt_queries: "queries (final_attempt w q k) = [q]"
  by (simp add: final_attempt_def split: sum.splits)

lemma final_attempt_sleeps: "sleeps (final_attempt w q k) = []"
  by (simp add: final_attempt_def split: sum.splits)

lemma sum_list_replicate_3: "sum_list (replicate n (3::nat)) = 3 * n"
  by (induction n) simp_all

lemma verify_loop_verification: "verify_loop w c (range_py 5) = (verification w c, Some True)"
  by (simp add: verify_loop_closed verification_def)

lemma verification_posts: "posts (verification w c) = 0"
  by (simp add: verification_def posts_append retries_posts final_attempt_posts)

lemma verification_queries:
  "queries (verification w c) =
     replicate (Suc (failed_attempts w (verification_query c))) (verification_query c)"
  by (simp add: verification_def queries_append retries_queries final_attempt_queries
      replicate_append_same)

lemma verification_sleeps:
  "sleeps (verification w c) = replicate (failed_attempts w (verification_query c)) 3"
  by (simp add: verification_def sleeps_append retries_sleeps final_attempt_sleeps)

lemma submitted_counts:
  "posts (submitted cfg) = 1" "queries (submitted cfg) = []" "sleeps (submitted cfg) = []"
  by (simp_all add: submitted_def)

lemma accepted_counts:
  "posts (accepted cfg) = 1" "queries (accepted cfg) = []" "sleeps (accepted cfg) = []"
  by (simp_all add: accepted_def posts_append queries_append sleeps_append submitted_counts)

lemma next_steps_counts:
  "posts next_steps = 0" "queries next_steps = []" "sleeps next_steps = []"
  by (simp_all add: next_steps_def)

lemma post_raises_run:
  assumes "post_reply w (url cfg) (headers cfg) [(''query'', schema_sql)] = Inl e"
  shows "create_question_cache_table cfg w = (submitted cfg, Inl e)"
  using assms by (simp add: create_question_cache_table_def submitted_def)

lemma rejected_run:
  assumes "post_reply w (url cfg) (headers cfg) [(''query'', schema_sql)] = Inr resp"
    and "status_code resp \<noteq> 200" and "status_code resp \<noteq> 201"
  shows "create_question_cache_table cfg w =
           (submitted cfg @ [Print (CreationFailed (status_code resp)),
                             Print (Text (take 500 (resp_text resp)))],
            Inr (Some False))"
  using assms by (simp add: create_question_cache_table_def submitted_def)

lemma no_client_run:
  assumes "post_reply w (url cfg) (headers cfg) [(''query'', schema_sql)] = Inr resp"
    and "status_code resp = 200 \<or> status_code resp = 201"
    and "client_error w (SUPABASE_URL cfg) (SUPABASE_SERVICE_KEY cfg) = Some e"
  shows "create_question_cache_table cfg w = (accepted cfg, Inl e)"
  using assms
  by (auto simp: create_question_cache_table_def submitted_def accepted_def create_client_def)

lemma accepted_run:
  assumes "post_reply w (url cfg) (headers cfg) [(''query'', schema_sql)] = Inr resp"
    and "status_code resp = 200 \<or> status_code resp = 201"
    and "client_error w (SUPABASE_URL cfg) (SUPABASE_SERVICE_KEY cfg) = None"
  shows "create_question_cache_table cfg w =
           (accepted cfg @ verification w (service_client cfg), Inr (Some True))"
  using assms
  by (auto simp: create_question_cache_table_def submitted_def accepted_def create_client_def
      service_client_def verify_loop_verification)

lemma main_loaded:
  assumes "load_config w = Inr cfg"
  shows "main w =
     (case create_question_cache_table cfg w of
        (evs, Inl e) \<Rightarrow> (evs, Uncaught e)
      | (evs, Inr r) \<Rightarrow> if \<not> truthy r then (evs, Exit 1) else (evs @ next_steps, Exit 0))"
  using assms by (simp add: main_def next_steps_def split: prod.splits sum.splits)

lemma main_not_loaded:
  assumes "load_config w = Inl e"
  shows "main w = ([], Uncaught e)"
  using assms by (simp add: main_def)

lemma create_question_cache_table_cases:
  obtains e where "create_question_cache_table cfg w = (submitted cfg, Inl e)"
  | resp :: http_response where "create_question_cache_table cfg w =
           (submitted cfg @ [Print (CreationFailed (status_code resp)),
                             Print (Text (take 500 (resp_text resp)))],
            Inr (Some False))"
  | e where "create_question_cache_table cfg w = (accepted cfg, Inl e)"
  | "create_question_cache_table cfg w =
           (accepted cfg @ verification w (service_client cfg), Inr (Some True))"
proof (cases "post_reply w (url cfg) (headers cfg) [(''query'', schema_sql)]")
  case (Inl e)
  then show ?thesis using that(1) post_raises_run by blast
next
  case (Inr resp)
  show ?thesis
  proof (cases "status_code resp = 200 \<or> status_code resp = 201")
    case False
    then have "status_code resp \<noteq> 200" and "status_code resp \<noteq> 201"
      by simp_all
    then have "create_question_cache_table cfg w =
           (submitted cfg @ [Print (CreationFailed (status_code resp)),
                             Print (Text (take 500 (resp_text resp)))],
            Inr (Some False))"
      by (rule rejected_run[OF Inr])
    then show ?thesis by (rule that(2))
  next
    case True
    show ?thesis
    proof (cases "client_error w (SUPABASE_URL cfg) (SUPABASE_SERVICE_KEY cfg)")
      case None
      then show ?thesis using that(4) accepted_run[OF Inr True] by blast
    next
      case (Some e)
      then show ?thesis using that(3) no_client_run[OF Inr True] by blast
    qed
  qed
qed

lemma create_posts: "posts (fst (create_question_cache_table cfg w)) = 1"
  by (rule create_question_cache_table_cases[of cfg w])
     (auto simp: posts_append submitted_counts accepted_counts verification_posts)

lemma failed_attempts_eq:
  assumes "k \<le> 4"
    and "\<forall>j<k. isl (execute_reply w j q)"
    and "k < 4 \<Longrightarrow> \<not> isl (execute_reply w k q)"
  shows "failed_attempts w q = k"
proof -
  let ?P = "\<lambda>attempt. isl (execute_reply w attempt q)"
  have "[0..<k + (4 - k)] = [0..<k] @ [k..<k + (4 - k)]"
    by (rule upt_add_eq_append) simp
  then have parts: "[0..<4] = [0..<k] @ [k..<4]"
    using assms(1) by simp
  have "takeWhile ?P ([0..<k] @ [k..<4]) = [0..<k] @ takeWhile ?P [k..<4]"
    by (rule takeWhile_append2) (use assms(2) in simp)
  moreover have "takeWhile ?P [k..<4] = []"
  proof (cases "k < 4")
    case True
    then have "[k..<4] = k # [Suc k..<4]"
      by (rule upt_conv_Cons)
    then show ?thesis
      using assms(3)[OF True] by simp
  next
    case False
    then show ?thesis by simp
  qed
  ultimately have "takeWhile ?P [0..<4] = [0..<k]"
    using parts by simp
  then show ?thesis
    by (simp add: failed_attempts_def)
qed

lemma load_stub:
  "load_config (stub_world stub_public status reads) = Inr stub_config"
  by (simp add: load_config_def stub_world_def stub_files_def stub_public_def stub_secrets_def
      getitem_def stub_config_def)

lemma or_0_count: "or_0 x = (case x of None \<Rightarrow> 0 | Some m \<Rightarrow> m)"
  by (simp add: or_0_def split: option.splits)

lemma post_stub:
  "post_reply (stub_world public status reads) u hs b = Inr (stub_response status)"
  by (simp add: stub_world_def)

lemma client_stub: "client_error (stub_world public status reads) u k = None"
  by (simp add: stub_world_def)

lemma execute_stub: "execute_reply (stub_world public status reads) = reads"
  by (simp add: stub_world_def)

lemma main_rejected:
  assumes "load_config w = Inr cfg"
    and "post_reply w (url cfg) (headers cfg) [(''query'', schema_sql)] = Inr resp"
    and "status_code resp \<noteq> 200" and "status_code resp \<noteq> 201"
  shows "main w =
           (submitted cfg @ [Print (CreationFailed (status_code resp)),
                             Print (Text (take 500 (resp_text resp)))],
            Exit 1)"
  by (simp add: main_loaded[OF assms(1)] rejected_run[OF assms(2-4)] truthy_def)

lemma main_accepted:
  assumes "load_config w = Inr cfg"
    and "post_reply w (url cfg) (headers cfg) [(''query'', schema_sql)] = Inr resp"
    and "status_code resp = 200 \<or> status_code resp = 201"
    and "client_error w (SUPABASE_URL cfg) (SUPABASE_SERVICE_KEY cfg) = None"
  shows "main w = (accepted cfg @ verification w (service_client cfg) @ next_steps, Exit 0)"
  by (simp add: main_loaded[OF assms(1)] accepted_run[OF assms(2-4)] truthy_def)

lemma verification_all_fail:
  assumes "\<forall>attempt<5. isl (execute_reply w attempt (verification_query c))"
  obtains e where "execute_reply w 4 (verification_query c) = Inl e"
    and "verification w c =
           concat (map (retry (verification_query c)) [0..<4])
             @ [Execute (verification_query c), Print (NotRefreshed e), Print ReadyShortly]"
proof -
  have "failed_attempts w (verification_query c) = 4"
    by (rule failed_attempts_eq) (use assms in simp_all)
  moreover from assms have "isl (execute_reply w 4 (verification_query c))"
    by simp
  then obtain e where "execute_reply w 4 (verification_query c) = Inl e"
    by (cases "execute_reply w 4 (verification_query c)") simp_all
  ultimately show thesis
    using that by (simp add: verification_def final_attempt_def)
qed

lemma verification_first_success:
  assumes "k < 5"
    and "\<forall>attempt<k. isl (execute_reply w attempt (verification_query c))"
    and "execute_reply w k (verification_query c) = Inr result"
  shows "verification w c =
           concat (map (retry (verification_query c)) [0..<k])
             @ [Execute (verification_query c), Print (TableVerified (or_0 (count result)))]"
proof -
  have "failed_attempts w (verification_query c) = k"
    by (rule failed_attempts_eq) (use assms in simp_all)
  then show ?thesis
    using assms(3) by (simp add: verification_def final_attempt_def)
qed

lemma create_sleeps:
  "\<exists>n. n \<le> 4 \<and> sleeps (fst (create_question_cache_table cfg w)) = replicate n 3"
proof (rule create_question_cache_table_cases[of cfg w])
  assume "create_question_cache_table cfg w =
            (accepted cfg @ verification w (service_client cfg), Inr (Some True))"
  then have "sleeps (fst (create_question_cache_table cfg w)) =
               replicate (failed_attempts w (verification_query (service_client cfg))) 3"
    by (simp add: sleeps_append accepted_counts verification_sleeps)
  then show ?thesis
    using failed_attempts_le by blast
qed (auto simp: sleeps_append submitted_counts accepted_counts)

lemma main_sleeps: "\<exists>n. n \<le> 4 \<and> sleeps (fst (main w)) = replicate n 3"
proof (cases "load_config w")
  case (Inl e)
  then show ?thesis by (simp add: main_not_loaded)
next
  case (Inr cfg)
  obtain n where n: "n \<le> 4" "sleeps (fst (create_question_cache_table cfg w)) = replicate n 3"
    using create_sleeps by blast
  have "sleeps (fst (main w)) = sleeps (fst (create_question_cache_table cfg w))"
    by (auto simp: main_loaded[OF Inr] sleeps_append next_steps_counts
        split: prod.splits sum.splits)
  with n show ?thesis by auto
qed

lemma create_queries:
  "\<exists>n. queries (fst (create_question_cache_table cfg w)) =
         replicate n (verification_query (service_client cfg))"
proof (rule create_question_cache_table_cases[of cfg w])
  assume "create_question_cache_table cfg w =
            (accepted cfg @ verification w (service_client cfg), Inr (Some True))"
  then have "queries (fst (create_question_cache_table cfg w)) =
               replicate (Suc (failed_attempts w (verification_query (service_client cfg))))
                 (verification_query (service_client cfg))"
    by (simp add: queries_append accepted_counts verification_queries)
  then show ?thesis by blast
qed (auto simp: queries_append submitted_counts accepted_counts)

lemma load_stub_without_anon_key:
  "load_config (stub_world public_without_anon_key status reads) = Inr stub_config"
  by (simp add: load_config_def stub_world_def stub_files_def public_without_anon_key_def
      stub_secrets_def getitem_def stub_config_def)

lemma getitem_lacks: "lacks d k \<Longrightarrow> getitem d k = Inl (missing_field_error d k)"
  by (auto simp: lacks_def getitem_def missing_field_error_def split: json.splits)

lemma getitem_has: "\<not> lacks d k \<Longrightarrow> \<exists>v. getitem d k = Inr v"
  by (auto simp: lacks_def getitem_def split: json.splits)

lemma load_fails:
  assumes "config_incomplete w"
  shows "\<exists>e. load_config w = Inl e
           \<and> (files w ''config.public.json'' = Inl e
               \<or> files w ''config.secret.json'' = Inl e
               \<or> (\<exists>d. files w ''config.public.json'' = Inr d
                      \<and> lacks d ''SUPABASE_URL''
                      \<and> e = missing_field_error d ''SUPABASE_URL'')
               \<or> (\<exists>d. files w ''config.secret.json'' = Inr d
                      \<and> (lacks d ''SUPABASE_SERVICE_KEY''
                             \<and> e = missing_field_error d ''SUPABASE_SERVICE_KEY''
                           \<or> lacks d ''SUPABASE_ACCESS_TOKEN''
                             \<and> e = missing_field_error d ''SUPABASE_ACCESS_TOKEN''
                           \<or> lacks d ''SUPABASE_PROJECT_REF''
                             \<and> e = missing_field_error d ''SUPABASE_PROJECT_REF'')))"
proof (cases "files w ''config.public.json''")
  case (Inl e)
  then show ?thesis by (simp add: load_config_def)
next
  case p: (Inr public_config)
  show ?thesis
  proof (cases "files w ''config.secret.json''")
    case (Inl e)
    then show ?thesis using p by (simp add: load_config_def)
  next
    case s: (Inr secrets)
    show ?thesis
    proof (cases "lacks public_config ''SUPABASE_URL''")
      case True
      then show ?thesis
        using p s by (simp add: load_config_def getitem_lacks)
    next
      case no_url: False
      then obtain v1 where v1: "getitem public_config ''SUPABASE_URL'' = Inr v1"
        using getitem_has by blast
      show ?thesis
      proof (cases "lacks secrets ''SUPABASE_SERVICE_KEY''")
        case True
        then show ?thesis
          using p s v1 by (simp add: load_config_def getitem_lacks)
      next
        case no_key: False
        then obtain v2 where v2: "getitem secrets ''SUPABASE_SERVICE_KEY'' = Inr v2"
          using getitem_has by blast
        show ?thesis
        proof (cases "lacks secrets ''SUPABASE_ACCESS_TOKEN''")
          case True
          then show ?thesis
            using p s v1 v2 by (simp add: load_config_def getitem_lacks)
        next
          case no_token: False
          then obtain v3 where v3: "getitem secrets ''SUPABASE_ACCESS_TOKEN'' = Inr v3"
            using getitem_has by blast
          have "lacks secrets ''SUPABASE_PROJECT_REF''"
            using assms p s no_url no_key no_token by (simp add: config_incomplete_def)
          then show ?thesis
            using p s v1 v2 v3 by (simp add: load_config_def getitem_lacks)
        qed
      qed
    qed
  qed
qed

lemma built_bounded_read: "limit (select (table c name) ''*'' None) 5 = bounded_read c name"
  by (simp add: limit_def select_def table_def bounded_read_def)

section \<open>The claims\<close>

text \<open>
  C7. In every run the request that carries the SQL batch is posted at most once: a call
  of \<open>create_question_cache_table\<close> posts it exactly once, whatever the endpoint
  answers and however the verification reads fail, and a run of the script that fails
  before the call posts nothing.
\<close>

theorem migration_posted_at_most_once:
  "posts (fst (create_question_cache_table cfg w)) = 1 \<and> posts (fst (main w)) \<le> 1"
proof
  show "posts (fst (create_question_cache_table cfg w)) = 1"
    by (rule create_posts)
  show "posts (fst (main w)) \<le> 1"
  proof (cases "load_config w")
    case (Inl e)
    then show ?thesis by (simp add: main_not_loaded)
  next
    case (Inr c)
    have "posts (fst (create_question_cache_table c w)) = 1"
      by (rule create_posts)
    then show ?thesis
      by (auto simp: main_loaded[OF Inr] posts_append next_steps_counts
          split: prod.splits sum.splits)
  qed
qed

text \<open>
  C1. When the endpoint accepts the migration (status 200 or 201) and each of the five
  verification reads raises, \<open>create_question_cache_table\<close> returns \<open>True\<close> after
  printing the warning in place of a fifth wait, and the script exits with code 0. The
  client constructor is taken not to raise, as the five reads of the claim require.
\<close>

theorem soft_warning_reports_success:
  assumes "load_config w = Inr cfg"
    and "post_reply w (url cfg) (headers cfg) [(''query'', schema_sql)] = Inr resp"
    and "status_code resp = 200 \<or> status_code resp = 201"
    and "client_error w (SUPABASE_URL cfg) (SUPABASE_SERVICE_KEY cfg) = None"
    and "\<forall>attempt<5. isl (execute_reply w attempt (verification_query (service_client cfg)))"
  shows "snd (create_question_cache_table cfg w) = Inr (Some True)
       \<and> snd (main w) = Exit 0
       \<and> exit_code (snd (main w)) = 0
       \<and> length (queries (fst (main w))) = 5
       \<and> (\<exists>e. execute_reply w 4 (verification_query (service_client cfg)) = Inl e
              \<and> fst (create_question_cache_table cfg w) =
                  accepted cfg
                    @ concat (map (retry (verification_query (service_client cfg))) [0..<4])
                    @ [Execute (verification_query (service_client cfg)),
                       Print (NotRefreshed e), Print ReadyShortly])"
proof -
  let ?q = "verification_query (service_client cfg)"
  obtain e where e: "execute_reply w 4 ?q = Inl e"
    and v: "verification w (service_client cfg) =
              concat (map (retry ?q) [0..<4]) @ [Execute ?q, Print (NotRefreshed e), Print ReadyShortly]"
    using assms(5) by (rule verification_all_fail)
  have run: "create_question_cache_table cfg w =
               (accepted cfg @ verification w (service_client cfg), Inr (Some True))"
    using assms(2-4) by (rule accepted_run)
  have whole: "main w =
                 (accepted cfg @ verification w (service_client cfg) @ next_steps, Exit 0)"
    using assms(1-4) by (rule main_accepted)
  have "length (queries (fst (main w))) = 5"
    by (simp add: whole v queries_append accepted_counts next_steps_counts retries_queries)
  then show ?thesis
    using e by (simp add: run whole v)
qed

theorem soft_warning_reports_success_witness:
  "snd (main (stub_world stub_public 201 (fails_until 5))) = Exit 0
   \<and> snd (create_question_cache_table stub_config (stub_world stub_public 201 (fails_until 5)))
       = Inr (Some True)
   \<and> length (queries (fst (main (stub_world stub_public 201 (fails_until 5))))) = 5"
proof -
  let ?w = "stub_world stub_public 201 (fails_until 5)"
  have "\<forall>attempt<5. isl (execute_reply ?w attempt (verification_query (service_client stub_config)))"
    by (simp add: execute_stub fails_until_def)
  moreover have "status_code (stub_response 201) = 200 \<or> status_code (stub_response 201) = 201"
    by (simp add: stub_response_def)
  ultimately show ?thesis
    using soft_warning_reports_success[OF load_stub post_stub _ client_stub, of 201 "fails_until 5"]
    by simp
qed

text \<open>
  C2. Whatever response the endpoint gives: with status 200 or 201 the function prints
  the success line right after the request and does not return \<open>False\<close>; with any
  other status it prints the status and the first 500 characters of the body, returns
  \<open>False\<close>, and the script exits with code 1.
\<close>

theorem submitter_reports_status:
  assumes "load_config w = Inr cfg"
    and "post_reply w (url cfg) (headers cfg) [(''query'', schema_sql)] = Inr resp"
  shows "if status_code resp = 200 \<or> status_code resp = 201
         then take 6 (fst (create_question_cache_table cfg w))
                = submitted cfg @ [Print CreatedSuccessfully]
              \<and> snd (create_question_cache_table cfg w) \<noteq> Inr (Some False)
         else create_question_cache_table cfg w =
                (submitted cfg @ [Print (CreationFailed (status_code resp)),
                                  Print (Text (take 500 (resp_text resp)))],
                 Inr (Some False))
              \<and> length (take 500 (resp_text resp)) \<le> 500
              \<and> snd (main w) = Exit 1
              \<and> exit_code (snd (main w)) = 1"
proof (cases "status_code resp = 200 \<or> status_code resp = 201")
  case True
  have len: "length (submitted cfg) = 5"
    by (simp add: submitted_def)
  show ?thesis
  proof (cases "client_error w (SUPABASE_URL cfg) (SUPABASE_SERVICE_KEY cfg)")
    case None
    show ?thesis
      using True by (simp add: accepted_run[OF assms(2) True None] accepted_def len)
  next
    case (Some e)
    show ?thesis
      using True by (simp add: no_client_run[OF assms(2) True Some] accepted_def len)
  qed
next
  case False
  then have no: "status_code resp \<noteq> 200" "status_code resp \<noteq> 201"
    by simp_all
  show ?thesis
    using False by (simp add: rejected_run[OF assms(2) no] main_rejected[OF assms no])
qed

theorem submitter_reports_status_witness:
  "create_question_cache_table stub_config (stub_world stub_public 500 (fails_until 0)) =
     (submitted stub_config @ [Print (CreationFailed 500), Print (Text ''reply'')],
      Inr (Some False))
   \<and> exit_code (snd (main (stub_world stub_public 500 (fails_until 0)))) = 1
   \<and> take 6 (fst (create_question_cache_table stub_config
                     (stub_world stub_public 201 (fails_until 0))))
       = submitted stub_config @ [Print CreatedSuccessfully]"
  using submitter_reports_status[OF load_stub post_stub, of 500 "fails_until 0"]
    submitter_reports_status[OF load_stub post_stub, of 201 "fails_until 0"]
  by (simp add: stub_response_def)

text \<open>
  C3. When the endpoint answers with a status other than 200 and 201, the function
  returns \<open>False\<close> right after printing the failure: no client is created, no query is
  executed, nothing sleeps, and the script exits with code 1.
\<close>

theorem rejected_never_verifies:
  assumes "load_config w = Inr cfg"
    and "post_reply w (url cfg) (headers cfg) [(''query'', schema_sql)] = Inr resp"
    and "status_code resp \<noteq> 200" and "status_code resp \<noteq> 201"
  shows "create_question_cache_table cfg w =
           (submitted cfg @ [Print (CreationFailed (status_code resp)),
                             Print (Text (take 500 (resp_text resp)))],
            Inr (Some False))
       \<and> queries (fst (create_question_cache_table cfg w)) = []
       \<and> main w = (fst (create_question_cache_table cfg w), Exit 1)
       \<and> queries (fst (main w)) = []
       \<and> sleeps (fst (main w)) = []
       \<and> exit_code (snd (main w)) = 1"
  by (simp add: rejected_run[OF assms(2-4)] main_rejected[OF assms] queries_append
      sleeps_append submitted_counts)

theorem rejected_never_verifies_witness:
  "main (stub_world stub_public 500 (fails_until 0)) =
     (submitted stub_config @ [Print (CreationFailed 500), Print (Text ''reply'')], Exit 1)
   \<and> queries (fst (main (stub_world stub_public 500 (fails_until 0)))) = []"
  using rejected_never_verifies[OF load_stub post_stub, of 500 "fails_until 0"]
  by (simp add: stub_response_def queries_append submitted_counts)

text \<open>
  C4. When the reads of attempts 1 to 4 raise and the read of attempt 5 returns, the
  run reports success and sleeps four times for 3 units, 12 units in all, once after
  each of the four failed attempts; nothing sleeps after the fifth.
\<close>

theorem fifth_attempt_sleeps_twelve:
  assumes "load_config w = Inr cfg"
    and "post_reply w (url cfg) (headers cfg) [(''query'', schema_sql)] = Inr resp"
    and "status_code resp = 200 \<or> status_code resp = 201"
    and "client_error w (SUPABASE_URL cfg) (SUPABASE_SERVICE_KEY cfg) = None"
    and "\<forall>attempt<4. isl (execute_reply w attempt (verification_query (service_client cfg)))"
    and "execute_reply w 4 (verification_query (service_client cfg)) = Inr result"
  shows "create_question_cache_table cfg w =
           (accepted cfg
              @ concat (map (retry (verification_query (service_client cfg))) [0..<4])
              @ [Execute (verification_query (service_client cfg)),
                 Print (TableVerified (or_0 (count result)))],
            Inr (Some True))
       \<and> snd (main w) = Exit 0
       \<and> sleeps (fst (main w)) = [3, 3, 3, 3]
       \<and> sum_list (sleeps (fst (main w))) = 12"
proof -
  let ?q = "verification_query (service_client cfg)"
  have v: "verification w (service_client cfg) =
             concat (map (retry ?q) [0..<4]) @ [Execute ?q, Print (TableVerified (or_0 (count result)))]"
    by (rule verification_first_success) (use assms(5,6) in simp_all)
  have run: "create_question_cache_table cfg w =
               (accepted cfg @ verification w (service_client cfg), Inr (Some True))"
    using assms(2-4) by (rule accepted_run)
  have whole: "main w =
                 (accepted cfg @ verification w (service_client cfg) @ next_steps, Exit 0)"
    using assms(1-4) by (rule main_accepted)
  have "sleeps (fst (main w)) = replicate 4 3"
    by (simp add: whole v sleeps_append accepted_counts next_steps_counts retries_sleeps)
  then have "sleeps (fst (main w)) = [3, 3, 3, 3]"
    by (simp add: eval_nat_numeral)
  then show ?thesis
    by (simp add: run whole v)
qed

theorem fifth_attempt_sleeps_twelve_witness:
  "snd (main (stub_world stub_public 200 (fails_until 4))) = Exit 0
   \<and> sum_list (sleeps (fst (main (stub_world stub_public 200 (fails_until 4))))) = 12"
proof -
  let ?w = "stub_world stub_public 200 (fails_until 4)"
  have "\<forall>attempt<4. isl (execute_reply ?w attempt (verification_query (service_client stub_config)))"
    by (simp add: execute_stub fails_until_def)
  moreover have "execute_reply ?w 4 (verification_query (service_client stub_config)) = Inr no_rows"
    by (simp add: execute_stub fails_until_def)
  moreover have "status_code (stub_response 200) = 200 \<or> status_code (stub_response 200) = 201"
    by (simp add: stub_response_def)
  ultimately show ?thesis
    using fifth_attempt_sleeps_twelve[OF load_stub post_stub _ client_stub, of 200 "fails_until 4" no_rows]
    by simp
qed

text \<open>
  C5. Every query the function executes is the same one: the column \<open>id\<close> of
  \<open>question_cache\<close> with an exact count and a limit of one row, through the client made
  of the service URL and the service key. When the request is accepted and attempt
  \<open>k\<close> (counted from 0) is the first whose read returns, the function returns \<open>True\<close>
  right after printing the count that read observed (0 when the read carries no count):
  it has executed \<open>k + 1\<close> queries.
\<close>

theorem verifier_query_and_first_success:
  "verification_query (service_client cfg) =
     \<lparr>req_client = \<lparr>supabase_url = SUPABASE_URL cfg, supabase_key = SUPABASE_SERVICE_KEY cfg\<rparr>,
      req_table = ''question_cache'', req_columns = ''id'', req_count = Some ''exact'',
      req_limit = Some 1\<rparr>
   \<and> queries (fst (create_question_cache_table cfg w)) =
       replicate (length (queries (fst (create_question_cache_table cfg w))))
         (verification_query (service_client cfg))
   \<and> (post_reply w (url cfg) (headers cfg) [(''query'', schema_sql)] = Inr resp
       \<and> (status_code resp = 200 \<or> status_code resp = 201)
       \<and> client_error w (SUPABASE_URL cfg) (SUPABASE_SERVICE_KEY cfg) = None
       \<and> k < 5
       \<and> (\<forall>attempt<k. isl (execute_reply w attempt (verification_query (service_client cfg))))
       \<and> execute_reply w k (verification_query (service_client cfg)) = Inr result
       \<longrightarrow> create_question_cache_table cfg w =
             (accepted cfg
                @ concat (map (retry (verification_query (service_client cfg))) [0..<k])
                @ [Execute (verification_query (service_client cfg)),
                   Print (TableVerified (case count result of None \<Rightarrow> 0 | Some m \<Rightarrow> m))],
              Inr (Some True))
           \<and> length (queries (fst (create_question_cache_table cfg w))) = k + 1)"
proof (intro conjI impI)
  show "verification_query (service_client cfg) =
     \<lparr>req_client = \<lparr>supabase_url = SUPABASE_URL cfg, supabase_key = SUPABASE_SERVICE_KEY cfg\<rparr>,
      req_table = ''question_cache'', req_columns = ''id'', req_count = Some ''exact'',
      req_limit = Some 1\<rparr>"
    by (simp add: verification_query_def service_client_def)
next
  obtain n where "queries (fst (create_question_cache_table cfg w)) =
                    replicate n (verification_query (service_client cfg))"
    using create_queries by blast
  then show "queries (fst (create_question_cache_table cfg w)) =
       replicate (length (queries (fst (create_question_cache_table cfg w))))
         (verification_query (service_client cfg))"
    by simp
next
  let ?q = "verification_query (service_client cfg)"
  let ?observed = "case count result of None \<Rightarrow> 0 | Some m \<Rightarrow> m"
  assume h: "post_reply w (url cfg) (headers cfg) [(''query'', schema_sql)] = Inr resp
       \<and> (status_code resp = 200 \<or> status_code resp = 201)
       \<and> client_error w (SUPABASE_URL cfg) (SUPABASE_SERVICE_KEY cfg) = None
       \<and> k < 5
       \<and> (\<forall>attempt<k. isl (execute_reply w attempt ?q))
       \<and> execute_reply w k ?q = Inr result"
  have "verification w (service_client cfg) =
          concat (map (retry ?q) [0..<k]) @ [Execute ?q, Print (TableVerified (or_0 (count result)))]"
    by (rule verification_first_success) (use h in simp_all)
  then have v: "verification w (service_client cfg) =
             concat (map (retry ?q) [0..<k]) @ [Execute ?q, Print (TableVerified ?observed)]"
    by (simp only: or_0_count)
  have run: "create_question_cache_table cfg w =
               (accepted cfg @ verification w (service_client cfg), Inr (Some True))"
    by (rule accepted_run[of w cfg resp]) (use h in simp_all)
  show "create_question_cache_table cfg w =
             (accepted cfg @ concat (map (retry ?q) [0..<k])
                @ [Execute ?q, Print (TableVerified ?observed)],
              Inr (Some True))"
    by (simp add: run v)
  show "length (queries (fst (create_question_cache_table cfg w))) = k + 1"
    by (simp add: run v queries_append accepted_counts retries_queries)
qed

theorem verifier_query_and_first_success_witness:
  "create_question_cache_table stub_config
     (stub_world stub_public 201 (fails_then 2 seven_counted)) =
     (accepted stub_config
        @ retry (verification_query (service_client stub_config)) 0
        @ retry (verification_query (service_client stub_config)) 1
        @ [Execute (verification_query (service_client stub_config)), Print (TableVerified 7)],
      Inr (Some True))
   \<and> length (queries (fst (create_question_cache_table stub_config
                             (stub_world stub_public 201 (fails_then 2 seven_counted))))) = 3"
proof -
  let ?w = "stub_world stub_public 201 (fails_then 2 seven_counted)"
  let ?q = "verification_query (service_client stub_config)"
  have "post_reply ?w (url stub_config) (headers stub_config) [(''query'', schema_sql)]
          = Inr (stub_response 201)
       \<and> (status_code (stub_response 201) = 200 \<or> status_code (stub_response 201) = 201)
       \<and> client_error ?w (SUPABASE_URL stub_config) (SUPABASE_SERVICE_KEY stub_config) = None
       \<and> (2::nat) < 5
       \<and> (\<forall>attempt<2. isl (execute_reply ?w attempt ?q))
       \<and> execute_reply ?w 2 ?q = Inr seven_counted"
    by (simp add: post_stub client_stub execute_stub fails_then_def stub_response_def)
  then have "create_question_cache_table stub_config ?w =
               (accepted stub_config @ concat (map (retry ?q) [0..<2])
                  @ [Execute ?q,
                     Print (TableVerified (case count seven_counted of None \<Rightarrow> 0 | Some m \<Rightarrow> m))],
                Inr (Some True))
             \<and> length (queries (fst (create_question_cache_table stub_config ?w))) = 2 + 1"
    using verifier_query_and_first_success[of stub_config ?w "stub_response 201" 2 seven_counted]
    by blast
  moreover have "[0..<2] = [0, 1::nat]"
    by (simp add: upt_rec)
  moreover have "count seven_counted = Some 7"
    by (simp add: seven_counted_def)
  ultimately show ?thesis
    by (simp add: queries_append accepted_counts retry_def)
qed

text \<open>
  C6, as the specification states it: every configuration that misses a file, the
  service URL, a credential or the project identifier makes the script fail before any
  network call. The migration script does not read the anonymous key: with a public file
  that has the service URL and no anonymous key, the script loads its configuration,
  posts the migration, verifies the table and exits with code 0.
\<close>

theorem missing_anon_key_counterexample:
  "spec_config_incomplete (stub_world public_without_anon_key 200 (fails_until 0))
   \<and> snd (main (stub_world public_without_anon_key 200 (fails_until 0))) = Exit 0
   \<and> network_calls (fst (main (stub_world public_without_anon_key 200 (fails_until 0)))) = 2"
proof -
  let ?w = "stub_world public_without_anon_key 200 (fails_until 0)"
  let ?q = "verification_query (service_client stub_config)"
  have "spec_config_incomplete ?w"
    by (simp add: spec_config_incomplete_def stub_world_def stub_files_def
        public_without_anon_key_def stub_secrets_def lacks_def)
  moreover have "status_code (stub_response 200) = 200 \<or> status_code (stub_response 200) = 201"
    by (simp add: stub_response_def)
  then have whole: "main ?w =
      (accepted stub_config @ verification ?w (service_client stub_config) @ next_steps, Exit 0)"
    by (rule main_accepted[OF load_stub_without_anon_key post_stub _ client_stub])
  moreover have "verification ?w (service_client stub_config) =
      concat (map (retry ?q) [0..<0]) @ [Execute ?q, Print (TableVerified (or_0 (count no_rows)))]"
    by (rule verification_first_success) (simp_all add: execute_stub fails_until_def)
  ultimately show ?thesis
    by (simp add: network_calls_def posts_append queries_append accepted_counts
        next_steps_counts)
qed

text \<open>
  C6, amended. Every configuration that misses a file, the service URL, the service key,
  the access token or the project identifier ends the migration script with an uncaught
  exception before any network call: the trace of the run is empty and the exit code is
  1. The exception is the one the load of a file raised, or the one the read of a field
  its file lacks raised: a \<open>KeyError\<close> that names this field, or a \<open>TypeError\<close> when
  the file is not a JSON object.
\<close>

theorem incomplete_config_fails_before_network:
  assumes "config_incomplete w"
  shows "\<exists>e. load_config w = Inl e
           \<and> (files w ''config.public.json'' = Inl e
               \<or> files w ''config.secret.json'' = Inl e
               \<or> (\<exists>d. files w ''config.public.json'' = Inr d
                      \<and> lacks d ''SUPABASE_URL''
                      \<and> e = (case d of JObject m \<Rightarrow> KeyError ''SUPABASE_URL''
                                         | JOther \<Rightarrow> TypeError))
               \<or> (\<exists>d. files w ''config.secret.json'' = Inr d
                      \<and> (lacks d ''SUPABASE_SERVICE_KEY''
                             \<and> e = (case d of JObject m \<Rightarrow> KeyError ''SUPABASE_SERVICE_KEY''
                                                | JOther \<Rightarrow> TypeError)
                           \<or> lacks d ''SUPABASE_ACCESS_TOKEN''
                             \<and> e = (case d of JObject m \<Rightarrow> KeyError ''SUPABASE_ACCESS_TOKEN''
                                                | JOther \<Rightarrow> TypeError)
                           \<or> lacks d ''SUPABASE_PROJECT_REF''
                             \<and> e = (case d of JObject m \<Rightarrow> KeyError ''SUPABASE_PROJECT_REF''
                                                | JOther \<Rightarrow> TypeError))))
           \<and> main w = ([], Uncaught e)
           \<and> network_calls (fst (main w)) = 0
           \<and> exit_code (snd (main w)) = 1"
proof -
  obtain e where e: "load_config w = Inl e"
    and kind: "files w ''config.public.json'' = Inl e
               \<or> files w ''config.secret.json'' = Inl e
               \<or> (\<exists>d. files w ''config.public.json'' = Inr d
                      \<and> lacks d ''SUPABASE_URL''
                      \<and> e = missing_field_error d ''SUPABASE_URL'')
               \<or> (\<exists>d. files w ''config.secret.json'' = Inr d
                      \<and> (lacks d ''SUPABASE_SERVICE_KEY''
                             \<and> e = missing_field_error d ''SUPABASE_SERVICE_KEY''
                           \<or> lacks d ''SUPABASE_ACCESS_TOKEN''
                             \<and> e = missing_field_error d ''SUPABASE_ACCESS_TOKEN''
                           \<or> lacks d ''SUPABASE_PROJECT_REF''
                             \<and> e = missing_field_error d ''SUPABASE_PROJECT_REF''))"
    using load_fails[OF assms] by blast
  have "main w = ([], Uncaught e)"
    using e by (rule main_not_loaded)
  then show ?thesis
    using e kind unfolding missing_field_error_def by (intro exI[of _ e]) (simp add: network_calls_def)
qed

theorem incomplete_config_fails_before_network_witness:
  "main (stub_world (JObject Map.empty) 200 (fails_until 0))
     = ([], Uncaught (KeyError ''SUPABASE_URL''))
   \<and> network_calls (fst (main (stub_world (JObject Map.empty) 200 (fails_until 0)))) = 0
   \<and> main (stub_world JOther 200 (fails_until 0)) = ([], Uncaught TypeError)"
proof -
  let ?w = "stub_world (JObject Map.empty) 200 (fails_until 0)"
  let ?v = "stub_world JOther 200 (fails_until 0)"
  have "config_incomplete ?w"
    by (simp add: config_incomplete_def stub_world_def stub_files_def lacks_def)
  then obtain e where "load_config ?w = Inl e" and "main ?w = ([], Uncaught e)"
    and "network_calls (fst (main ?w)) = 0"
    using incomplete_config_fails_before_network by blast
  moreover have "load_config ?w = Inl (KeyError ''SUPABASE_URL'')"
    by (simp add: load_config_def stub_world_def stub_files_def getitem_def)
  moreover have "config_incomplete ?v"
    by (simp add: config_incomplete_def stub_world_def stub_files_def lacks_def)
  then obtain e' where "load_config ?v = Inl e'" and "main ?v = ([], Uncaught e')"
    using incomplete_config_fails_before_network by blast
  moreover have "load_config ?v = Inl TypeError"
    by (simp add: load_config_def stub_world_def stub_files_def getitem_def)
  ultimately show ?thesis
    by simp
qed

text \<open>
  C8. With the public file, the service URL and the anonymous key in place, a client made
  of that key and two reads that return, the script executes one read of at most five
  rows on \<open>page_views\<close> and one on \<open>sentence_embeddings\<close>, prints the number of rows
  of each, and ends with exit code 0. When the first read returns five rows and the
  second none, the printed numbers are 5 and 0.
\<close>

theorem smoke_query_prints_counts:
  assumes "files w ''config.public.json'' = Inr (JObject public)"
    and "public ''SUPABASE_URL'' = Some service_url"
    and "public ''SUPABASE_ANON_KEY'' = Some anon_key"
    and "client_error w service_url anon_key = None"
    and "c = \<lparr>supabase_url = service_url, supabase_key = anon_key\<rparr>"
    and "execute_reply w 0 (bounded_read c ''page_views'') = Inr result"
    and "execute_reply w 1 (bounded_read c ''sentence_embeddings'') = Inr result'"
  shows "query_tables w =
           ([CreateClient service_url anon_key,
             Execute (bounded_read c ''page_views''),
             Print (PageViews (length (data result))),
             Execute (bounded_read c ''sentence_embeddings''),
             Print (SentenceEmbeddings (length (data result')))],
            Exit 0)
       \<and> req_limit (bounded_read c ''page_views'') = Some 5
       \<and> req_limit (bounded_read c ''sentence_embeddings'') = Some 5
       \<and> (length (data result) = 5 \<and> data result' = [] \<longrightarrow>
            printed (fst (query_tables w)) = [PageViews 5, SentenceEmbeddings 0])"
proof -
  have run: "query_tables w =
           ([CreateClient service_url anon_key,
             Execute (bounded_read c ''page_views''),
             Print (PageViews (length (data result))),
             Execute (bounded_read c ''sentence_embeddings''),
             Print (SentenceEmbeddings (length (data result')))],
            Exit 0)"
    unfolding query_tables_def built_bounded_read Let_def
    using assms by (simp add: getitem_def create_client_def)
  show ?thesis
    by (simp add: run bounded_read_def)
qed

theorem smoke_query_prints_counts_witness:
  "printed (fst (query_tables (stub_world stub_public 200 smoke_reads)))
     = [PageViews 5, SentenceEmbeddings 0]
   \<and> snd (query_tables (stub_world stub_public 200 smoke_reads)) = Exit 0"
proof -
  let ?w = "stub_world stub_public 200 smoke_reads"
  let ?c = "\<lparr>supabase_url = ''https://stub.supabase.co'', supabase_key = ''anon''\<rparr>"
  let ?public = "[''SUPABASE_URL'' \<mapsto> ''https://stub.supabase.co'', ''SUPABASE_ANON_KEY'' \<mapsto> ''anon'']"
  have loaded: "files ?w ''config.public.json'' = Inr (JObject ?public)"
    by (simp add: stub_world_def stub_files_def stub_public_def)
  have service_url: "?public ''SUPABASE_URL'' = Some ''https://stub.supabase.co''"
    and anon_key: "?public ''SUPABASE_ANON_KEY'' = Some ''anon''"
    by simp_all
  have no_error: "client_error ?w ''https://stub.supabase.co'' ''anon'' = None"
    by (rule client_stub)
  have first: "execute_reply ?w 0 (bounded_read ?c ''page_views'') = Inr five_rows"
    and second: "execute_reply ?w 1 (bounded_read ?c ''sentence_embeddings'') = Inr no_rows"
    by (simp_all add: execute_stub smoke_reads_def bounded_read_def)
  have "length (data five_rows) = 5 \<and> data no_rows = []"
    by (simp add: five_rows_def no_rows_def)
  then show ?thesis
    using smoke_query_prints_counts[OF loaded service_url anon_key no_error refl first second]
    by simp
qed

text \<open>
  C9. The count the verifier reports on a read that returns is the count of the read,
  and 0 when the read has no count or the count 0: whatever the count, the iteration
  prints a number and returns \<open>True\<close> at once.
\<close>

theorem reported_count_defaults_to_zero:
  "or_0 None = 0 \<and> or_0 (Some 0) = 0 \<and> (n \<noteq> 0 \<longrightarrow> or_0 (Some n) = n)
   \<and> (execute_reply w attempt (verification_query c) = Inr result \<longrightarrow>
        verify_loop w c (attempt # rest) =
          ([Execute (verification_query c),
            Print (TableVerified (case count result of None \<Rightarrow> 0 | Some m \<Rightarrow> m))],
           Some True))"
  by (auto simp: or_0_def verify_loop_step split: option.splits)

theorem reported_count_defaults_to_zero_witness:
  "or_0 (Some 7) = 7
   \<and> verify_loop (stub_world stub_public 200 (counted 7)) (service_client stub_config)
       [0, 1, 2, 3, 4] =
       ([Execute (verification_query (service_client stub_config)), Print (TableVerified 7)],
        Some True)
   \<and> fst (verify_loop (stub_world stub_public 200 (fails_until 0)) (service_client stub_config)
       [0, 1, 2, 3, 4]) =
       [Execute (verification_query (service_client stub_config)), Print (TableVerified 0)]"
  using reported_count_defaults_to_zero[of 7 "stub_world stub_public 200 (counted 7)" 0
      "service_client stub_config" "\<lparr>data = [], count = Some 7\<rparr>" "[1, 2, 3, 4]"]
    reported_count_defaults_to_zero[of 7 "stub_world stub_public 200 (fails_until 0)" 0
      "service_client stub_config" no_rows "[1, 2, 3, 4]"]
  by (simp add: execute_stub counted_def fails_until_def no_rows_def)

text \<open>
  C10. Every run of the retry loop returns \<open>True\<close>. Its trace is one block of query,
  waiting line and sleep of 3 units for each attempt that failed before the loop ended,
  at most four of them and all among the attempts 0 to 3, then the attempt that ends the
  loop, which holds one query and no sleep. So the loop executes at most five queries
  and sleeps at most four times, 12 units at most, and so does the whole script.
\<close>

theorem verifier_sleeps_between_attempts_only:
  "verify_loop w c (range_py 5) =
     (concat (map (retry (verification_query c)) [0..<failed_attempts w (verification_query c)])
        @ final_attempt w (verification_query c) (failed_attempts w (verification_query c)),
      Some True)
   \<and> failed_attempts w (verification_query c) \<le> 4
   \<and> (\<forall>attempt<failed_attempts w (verification_query c).
         isl (execute_reply w attempt (verification_query c)))
   \<and> sleeps (concat (map (retry (verification_query c))
                [0..<failed_attempts w (verification_query c)]))
       = replicate (failed_attempts w (verification_query c)) 3
   \<and> sleeps (final_attempt w (verification_query c) (failed_attempts w (verification_query c)))
       = []
   \<and> queries (final_attempt w (verification_query c) (failed_attempts w (verification_query c)))
       = [verification_query c]
   \<and> length (queries (fst (verify_loop w c (range_py 5)))) \<le> 5
   \<and> length (sleeps (fst (verify_loop w c (range_py 5)))) \<le> 4
   \<and> sum_list (sleeps (fst (verify_loop w c (range_py 5)))) \<le> 12
   \<and> length (sleeps (fst (main w))) \<le> 4
   \<and> sum_list (sleeps (fst (main w))) \<le> 12"
proof -
  let ?q = "verification_query c"
  let ?n = "failed_attempts w ?q"
  have n: "?n \<le> 4"
    by (rule failed_attempts_le)
  have loop: "verify_loop w c (range_py 5) =
                (concat (map (retry ?q) [0..<?n]) @ final_attempt w ?q ?n, Some True)"
    by (rule verify_loop_closed)
  have fails: "\<forall>attempt<?n. isl (execute_reply w attempt ?q)"
    by (simp add: failed_attempts_fail)
  have s: "sleeps (fst (verify_loop w c (range_py 5))) = replicate ?n 3"
    by (simp add: loop sleeps_append retries_sleeps final_attempt_sleeps)
  have q: "length (queries (fst (verify_loop w c (range_py 5)))) = Suc ?n"
    by (simp add: loop queries_append retries_queries final_attempt_queries)
  obtain m where m: "m \<le> 4" "sleeps (fst (main w)) = replicate m 3"
    using main_sleeps by blast
  have "length (sleeps (fst (main w))) \<le> 4" "sum_list (sleeps (fst (main w))) \<le> 12"
    using m by (simp_all add: sum_list_replicate_3)
  moreover have "length (sleeps (fst (verify_loop w c (range_py 5)))) \<le> 4"
    "sum_list (sleeps (fst (verify_loop w c (range_py 5)))) \<le> 12"
    using n by (simp_all add: s sum_list_replicate_3)
  moreover have "length (queries (fst (verify_loop w c (range_py 5)))) \<le> 5"
    using n by (simp add: q)
  ultimately show ?thesis
    using loop n fails
    by (simp add: retries_sleeps final_attempt_sleeps final_attempt_queries)
qed

theorem verifier_sleeps_between_attempts_only_witness:
  "verify_loop (stub_world stub_public 200 (fails_until 2)) (service_client stub_config)
     (range_py 5) =
     (retry (verification_query (service_client stub_config)) 0
        @ retry (verification_query (service_client stub_config)) 1
        @ [Execute (verification_query (service_client stub_config)), Print (TableVerified 0)],
      Some True)"
proof -
  let ?w = "stub_world stub_public 200 (fails_until 2)"
  let ?q = "verification_query (service_client stub_config)"
  have "failed_attempts ?w ?q = 2"
    by (rule failed_attempts_eq) (simp_all add: execute_stub fails_until_def)
  moreover have "[0..<2] = [0, 1::nat]"
    by (simp add: upt_rec)
  moreover have "final_attempt ?w ?q 2 = [Execute ?q, Print (TableVerified 0)]"
    by (simp add: final_attempt_def execute_stub fails_until_def or_0_def no_rows_def)
  ultimately show ?thesis
    using verifier_sleeps_between_attempts_only[of ?w "service_client stub_config"]
    by simp
qed

end
